theory Spec2Isabelle
  imports Complex_Main "HOL-Library.Word"
begin

section \<open>Messages and observable effects\<close>

text \<open>
  The two tasks exchange IMC messages with their environment. Only the fields that the
  handlers read or write are kept. Times (the C++ \<open>double\<close>) are real numbers. System
  identifiers are compared in the source after conversion to \<open>unsigned\<close> (the type of
  \<open>m_slave_id\<close>), so the identifier carried by a message is its value as a 32-bit word.
  Calls to \<open>debug\<close>, \<open>trace\<close> and \<open>spew\<close> only write to the log and are left out.
\<close>

datatype pcc_op = PCC_OP_TURN_ON | PCC_OP_TURN_OFF

record PowerChannelControl =
  pcc_name :: string
  pcc_op :: pcc_op

datatype pop_op = POP_PWR_DOWN | POP_PWR_DOWN_IP | POP_PWR_UP | POP_OTHER nat

record PowerOperation =
  pop_destination :: "32 word"
  pop_op :: pop_op

record Heartbeat =
  hb_source :: "32 word"
  hb_timestamp :: real

record EntityParameter =
  ep_name :: string
  ep_value :: string

record SetEntityParameters =
  sep_name :: string
  sep_params :: "EntityParameter list"

datatype rc_op = OP_REQUEST_START | OP_STARTED | OP_REQUEST_STOP | OP_STOPPED
  | OP_REQUEST_REPORT | OP_REPORT_SENT | OP_OTHER nat

datatype comm_interface = CI_ACOUSTIC | CI_OTHER nat

record ReportControl =
  rc_op :: rc_op
  rc_comm_interface :: comm_interface
  rc_period :: real
  rc_sys_dst :: string

datatype entity_state_enum = ESTA_NORMAL

datatype status_code = CODE_ACTIVE | CODE_IDLE

text \<open>
  Everything a handler hands to the bus or to the framework, in program order:
  dispatched messages, replies, entity state reports and the activation failure signal.
\<close>

datatype effect =
    Dispatch_PowerChannelControl PowerChannelControl
  | Dispatch_PowerOperation PowerOperation
  | Dispatch_SetEntityParameters SetEntityParameters
  | Dispatch_ReportControl ReportControl
  | Reply_ReportControl ReportControl ReportControl
  | Report_EntityState entity_state_enum status_code
  | Activation_Failed string

section \<open>The framework base class\<close>

text \<open>
  Modelled from the spec: the activation state of \<open>DUNE::Tasks::Task\<close>, whose
  declaration is not among the sources. The spec names the four states of the lifecycle
  \<open>Idle \<rightarrow> Activating \<rightarrow> Active \<rightarrow> Deactivating \<rightarrow> Idle\<close>.
\<close>

datatype activation_state = Idle | Activating | Active | Deactivating

text \<open>
  Modelled from the spec: the part of \<open>DUNE::Tasks::Task\<close> that the two tasks use. The
  class itself is not among the sources. It holds the activation state, the entity state
  last set, the activation and deactivation timeouts that the framework supplies
  (\<open>getActivationTime\<close>, \<open>getDeactivationTime\<close>), and the effects produced so far.
\<close>

record Tasks_Task =
  act_state :: activation_state
  entity_state :: "entity_state_enum \<times> status_code"
  activation_time :: real
  deactivation_time :: real
  outbox :: "effect list"

text \<open>
  Modelled from the spec: \<open>dispatch\<close> of the missing base class hands a message to
  the bus; no acknowledgement is awaited.
\<close>

definition dispatch :: "effect \<Rightarrow> 'a Tasks_Task_scheme \<Rightarrow> 'a Tasks_Task_scheme" where
  "dispatch e s = s\<lparr>outbox := outbox s @ [e]\<rparr>"

text \<open>
  Modelled from the spec: \<open>setEntityState\<close> of the missing base class reports the
  operational status (NORMAL/ACTIVE or NORMAL/IDLE).
\<close>

definition setEntityState ::
  "entity_state_enum \<Rightarrow> status_code \<Rightarrow> 'a Tasks_Task_scheme \<Rightarrow> 'a Tasks_Task_scheme" where
  "setEntityState st code s =
     s\<lparr>entity_state := (st, code), outbox := outbox s @ [Report_EntityState st code]\<rparr>"

text \<open>
  Modelled from the spec: the three queries of the missing base class on the activation
  state. \<open>isActive\<close> is "the framework considers the task operationally active".
\<close>

definition isActive :: "'a Tasks_Task_scheme \<Rightarrow> bool" where
  "isActive s = (act_state s = Active)"

definition isActivating :: "'a Tasks_Task_scheme \<Rightarrow> bool" where
  "isActivating s = (act_state s = Activating)"

definition isDeactivating :: "'a Tasks_Task_scheme \<Rightarrow> bool" where
  "isDeactivating s = (act_state s = Deactivating)"

text \<open>
  Modelled from the spec: \<open>DUNE::Time::Counter\<close>, which is not among the sources. The
  spec describes a single re-armable countdown with the operations "set deadline" and
  "has it elapsed"; arming it again supersedes the deadline set before. \<open>setTop\<close> takes
  the reading of the monotonic clock at the call, \<open>overflow\<close> the reading at the query.
\<close>

record Counter =
  deadline :: real

definition setTop :: "real \<Rightarrow> real \<Rightarrow> Counter" where
  "setTop tp now = \<lparr>deadline = now + tp\<rparr>"

definition overflow :: "Counter \<Rightarrow> real \<Rightarrow> bool" where
  "overflow c now = (deadline c \<le> now)"

section \<open>Power.LEDCON\<close>

record Arguments =
  pwr_chn :: string
  slave_system :: string
  slave_entity :: string

record Task = Tasks_Task +
  m_act_timer :: Counter
  m_slave_alive :: bool
  m_slave_id :: "32 word"
  m_args :: Arguments
  m_ccu_pdown :: bool

text \<open>
  \<open>consume(const IMC::Heartbeat*)\<close>. The second argument is the reading of
  \<open>Clock::getSinceEpoch()\<close> inside the handler.
\<close>

definition consume_Heartbeat :: "Task \<Rightarrow> real \<Rightarrow> Heartbeat \<Rightarrow> Task" where
  "consume_Heartbeat s epoch msg =
     (if \<not> isActivating s \<or> hb_source msg \<noteq> m_slave_id s then s
      else if \<bar>hb_timestamp msg - epoch\<bar> \<le> 1.0 then s\<lparr>m_slave_alive := True\<rparr>
      else s)"

definition sendPowerChannelControl :: "string \<Rightarrow> bool \<Rightarrow> Task \<Rightarrow> Task" where
  "sendPowerChannelControl name v s =
     dispatch (Dispatch_PowerChannelControl
       \<lparr>pcc_name = name, pcc_op = (if v then PCC_OP_TURN_ON else PCC_OP_TURN_OFF)\<rparr>) s"

definition setActiveParameter :: "bool \<Rightarrow> Task \<Rightarrow> Task" where
  "setActiveParameter v s =
     dispatch (Dispatch_SetEntityParameters
       \<lparr>sep_name = slave_entity (m_args s),
        sep_params = [\<lparr>ep_name = ''Active'', ep_value = (if v then ''true'' else ''false'')\<rparr>]\<rparr>) s"

definition sendPowerDown :: "Task \<Rightarrow> Task" where
  "sendPowerDown s =
     dispatch (Dispatch_PowerOperation
       \<lparr>pop_destination = m_slave_id s, pop_op = POP_PWR_DOWN_IP\<rparr>) s"

text \<open>
  \<open>consume(const IMC::PowerOperation*)\<close>. The two tests on \<open>msg->op\<close> are made one
  after the other, as in the source. The second argument is the reading of the monotonic
  clock when the timer is armed.
\<close>

definition consume_PowerOperation :: "Task \<Rightarrow> real \<Rightarrow> PowerOperation \<Rightarrow> Task" where
  "consume_PowerOperation s now msg =
     (if pop_destination msg = m_slave_id s then
        (let s1 = (if pop_op msg = POP_PWR_UP
                   then sendPowerChannelControl (pwr_chn (m_args s)) True (s\<lparr>m_ccu_pdown := False\<rparr>)
                   else s)
         in if pop_op msg = POP_PWR_DOWN
            then (sendPowerDown s1)
                   \<lparr>m_ccu_pdown := True, m_act_timer := setTop (deactivation_time s1) now\<rparr>
            else s1)
      else s)"

definition onRequestActivation :: "Task \<Rightarrow> real \<Rightarrow> Task" where
  "onRequestActivation s now =
     (sendPowerChannelControl (pwr_chn (m_args s)) True
        (s\<lparr>m_slave_alive := False, m_ccu_pdown := False\<rparr>))
       \<lparr>m_act_timer := setTop (activation_time s) now\<rparr>"

definition onActivation :: "Task \<Rightarrow> Task" where
  "onActivation s = setEntityState ESTA_NORMAL CODE_ACTIVE s"

definition onRequestDeactivation :: "Task \<Rightarrow> real \<Rightarrow> Task" where
  "onRequestDeactivation s now =
     (sendPowerDown (setActiveParameter False s))
       \<lparr>m_act_timer := setTop (deactivation_time s) now\<rparr>"

definition onDeactivation :: "Task \<Rightarrow> Task" where
  "onDeactivation s =
     setEntityState ESTA_NORMAL CODE_IDLE (sendPowerChannelControl (pwr_chn (m_args s)) False s)"

text \<open>
  Modelled from the spec: the lifecycle primitives of the missing base class. The
  activation state changes only through them. A request is accepted in the state it
  starts from (activation from Idle, deactivation from Active) and then calls the task's
  \<open>onRequest...\<close> handler; \<open>activate\<close> confirms an activation in progress and enters
  Active through \<open>onActivation\<close>; \<open>activationFailed\<close> signals the failure with its reason
  and the framework goes back to Idle; \<open>deactivate\<close> confirms a deactivation in progress
  and enters Idle through \<open>onDeactivation\<close>.
\<close>

definition requestActivation :: "Task \<Rightarrow> real \<Rightarrow> Task" where
  "requestActivation s now =
     (if act_state s = Idle then onRequestActivation (s\<lparr>act_state := Activating\<rparr>) now else s)"

definition activate :: "Task \<Rightarrow> Task" where
  "activate s = (if isActivating s then onActivation (s\<lparr>act_state := Active\<rparr>) else s)"

definition activationFailed :: "string \<Rightarrow> Task \<Rightarrow> Task" where
  "activationFailed reason s =
     (if isActivating s then (dispatch (Activation_Failed reason) s)\<lparr>act_state := Idle\<rparr> else s)"

definition requestDeactivation :: "Task \<Rightarrow> real \<Rightarrow> Task" where
  "requestDeactivation s now =
     (if act_state s = Active then onRequestDeactivation (s\<lparr>act_state := Deactivating\<rparr>) now
      else s)"

definition deactivate :: "Task \<Rightarrow> Task" where
  "deactivate s = (if isDeactivating s then onDeactivation (s\<lparr>act_state := Idle\<rparr>) else s)"

text \<open>
  The three checks of the main loop. Each reads the monotonic clock through
  \<open>m_act_timer.overflow()\<close>; the reading is the second argument.
\<close>

definition checkActivation :: "Task \<Rightarrow> real \<Rightarrow> Task" where
  "checkActivation s now =
     (if \<not> isActivating s then s
      else if overflow (m_act_timer s) now then
        sendPowerChannelControl (pwr_chn (m_args s)) False
          (activationFailed ''failed to contact device'' s)
      else if m_slave_alive s then setActiveParameter True (activate s)
      else s)"

definition checkDeactivation :: "Task \<Rightarrow> real \<Rightarrow> Task" where
  "checkDeactivation s now =
     (if \<not> isDeactivating s then s
      else if overflow (m_act_timer s) now then deactivate s
      else s)"

definition checkPowerDown :: "Task \<Rightarrow> real \<Rightarrow> Task" where
  "checkPowerDown s now =
     (if \<not> m_ccu_pdown s then s
      else if overflow (m_act_timer s) now then
        setEntityState ESTA_NORMAL CODE_IDLE
          (sendPowerChannelControl (pwr_chn (m_args s)) False s)
      else s)"

text \<open>
  The body of the loop of \<open>onMain\<close> after \<open>waitForMessages\<close> has returned: the status
  report, then the three checks. One pass is taken at one instant of the monotonic clock.
\<close>

definition onMain_body :: "Task \<Rightarrow> real \<Rightarrow> Task" where
  "onMain_body s now =
     (let s1 = (if isActive s then setEntityState ESTA_NORMAL CODE_ACTIVE s
                else setEntityState ESTA_NORMAL CODE_IDLE s);
          s2 = checkActivation s1 now;
          s3 = checkDeactivation s2 now
      in checkPowerDown s3 now)"

text \<open>
  The order of one pass as the specification words it: the activation check, the
  deactivation check and the power-down check, followed by one status report.
\<close>

definition spec_onMain_body :: "Task \<Rightarrow> real \<Rightarrow> Task" where
  "spec_onMain_body s now =
     (let s1 = checkActivation s now;
          s2 = checkDeactivation s1 now;
          s3 = checkPowerDown s2 now
      in if isActive s3 then setEntityState ESTA_NORMAL CODE_ACTIVE s3
         else setEntityState ESTA_NORMAL CODE_IDLE s3)"

text \<open>
  A run of the task is a sequence of events on its single control thread: inside
  \<open>waitForMessages\<close> a message is handed to its handler or the framework passes on a
  request; when \<open>waitForMessages\<close> returns, the body of the loop runs once. Each event
  carries the clock reading of its handler. The loop of \<open>onMain\<close> goes on until the task
  is stopped; a list of events is a finite prefix of it.
\<close>

datatype event =
    Ev_Heartbeat real Heartbeat
  | Ev_PowerOperation real PowerOperation
  | Ev_requestActivation real
  | Ev_requestDeactivation real
  | Ev_wake real

fun handle :: "Task \<Rightarrow> event \<Rightarrow> Task" where
  "handle s (Ev_Heartbeat epoch msg) = consume_Heartbeat s epoch msg"
| "handle s (Ev_PowerOperation now msg) = consume_PowerOperation s now msg"
| "handle s (Ev_requestActivation now) = requestActivation s now"
| "handle s (Ev_requestDeactivation now) = requestDeactivation s now"
| "handle s (Ev_wake now) = onMain_body s now"

definition run :: "Task \<Rightarrow> event list \<Rightarrow> Task" where
  "run s evs = foldl handle s evs"

text \<open>The number of activation failure signals among a list of effects.\<close>

fun is_Activation_Failed :: "effect \<Rightarrow> bool" where
  "is_Activation_Failed (Activation_Failed r) = True"
| "is_Activation_Failed _ = False"

definition activation_failures :: "effect list \<Rightarrow> nat" where
  "activation_failures es = length (filter is_Activation_Failed es)"






text \<open>
  The configuration of the end-to-end scenario of the specification: channel \<open>C1\<close>,
  slave id 42, activation timeout 30 s, deactivation timeout 10 s; the task is idle.
\<close>

definition scenario :: Task where
  "scenario =
     \<lparr>act_state = Idle, entity_state = (ESTA_NORMAL, CODE_IDLE),
      activation_time = 30, deactivation_time = 10, outbox = [],
      m_act_timer = \<lparr>deadline = 0\<rparr>, m_slave_alive = False, m_slave_id = 42,
      m_args = \<lparr>pwr_chn = ''C1'', slave_system = ''slave'', slave_entity = ''camera''\<rparr>,
      m_ccu_pdown = False\<rparr>"

abbreviation channel_on :: "string \<Rightarrow> effect" where
  "channel_on name \<equiv>
     Dispatch_PowerChannelControl \<lparr>pcc_name = name, pcc_op = PCC_OP_TURN_ON\<rparr>"

abbreviation channel_off :: "string \<Rightarrow> effect" where
  "channel_off name \<equiv>
     Dispatch_PowerChannelControl \<lparr>pcc_name = name, pcc_op = PCC_OP_TURN_OFF\<rparr>"

abbreviation report_idle :: effect where
  "report_idle \<equiv> Report_EntityState ESTA_NORMAL CODE_IDLE"

abbreviation report_active :: effect where
  "report_active \<equiv> Report_EntityState ESTA_NORMAL CODE_ACTIVE"


abbreviation set_active_parameter :: "string \<Rightarrow> string \<Rightarrow> effect" where
  "set_active_parameter entity v \<equiv>
     Dispatch_SetEntityParameters
       \<lparr>sep_name = entity, sep_params = [\<lparr>ep_name = ''Active'', ep_value = v\<rparr>]\<rparr>"

section \<open>Supervisors.Reporter\<close>

record Reporter_Arguments =
  acoustic :: bool
  acoustic_period :: real

datatype Ticket = Ticket "16 word" ReportControl

text \<open>
  The ticket dispatcher (\<open>Dispatcher.hpp\<close>) is not among the sources. The task only
  calls four of its operations, which are taken as parameters over an arbitrary type of
  dispatcher states.
\<close>

record 'd Dispatcher_ops =
  dispatcher_add :: "Ticket \<Rightarrow> 'd \<Rightarrow> 'd"
  dispatcher_remove :: "Ticket \<Rightarrow> 'd \<Rightarrow> 'd"
  dispatcher_clearAcoustic :: "'d \<Rightarrow> 'd"
  dispatcher_isEmpty :: "'d \<Rightarrow> bool"

record 'd Reporter_Task = Tasks_Task +
  m_id :: "16 word"
  m_dispatcher :: 'd
  reporter_args :: Reporter_Arguments

definition report_dispatcher_state :: "'d Dispatcher_ops \<Rightarrow> 'd Reporter_Task \<Rightarrow> 'd Reporter_Task" where
  "report_dispatcher_state ops s =
     (if dispatcher_isEmpty ops (m_dispatcher s) then setEntityState ESTA_NORMAL CODE_IDLE s
      else setEntityState ESTA_NORMAL CODE_ACTIVE s)"

text \<open>
  \<open>onUpdateParameters\<close>. The two booleans are the results of \<open>paramChanged\<close> for the two
  parameters. The start request is dispatched with loop-back: it goes to the bus and
  reaches \<open>consume\<close> in a later \<open>waitForMessages\<close>, not inside this call.
\<close>

definition reporter_onUpdateParameters ::
  "'d Dispatcher_ops \<Rightarrow> bool \<Rightarrow> bool \<Rightarrow> 'd Reporter_Task \<Rightarrow> 'd Reporter_Task" where
  "reporter_onUpdateParameters ops changed_acoustic changed_period s =
     (let s1 = (if changed_acoustic \<or> changed_period then
                  (if acoustic (reporter_args s) then
                     dispatch (Dispatch_ReportControl
                       \<lparr>rc_op = OP_REQUEST_START, rc_comm_interface = CI_ACOUSTIC,
                        rc_period = acoustic_period (reporter_args s),
                        rc_sys_dst = ''broadcast''\<rparr>) s
                   else s\<lparr>m_dispatcher := dispatcher_clearAcoustic ops (m_dispatcher s)\<rparr>)
                else s)
      in report_dispatcher_state ops s1)"

text \<open>\<open>consume(const IMC::ReportControl*)\<close>; \<open>m_id++\<close> wraps at 16 bits.\<close>

definition consume_ReportControl ::
  "'d Dispatcher_ops \<Rightarrow> 'd Reporter_Task \<Rightarrow> ReportControl \<Rightarrow> 'd Reporter_Task" where
  "consume_ReportControl ops s msg =
     (let s1 = (case rc_op msg of
                  OP_REQUEST_START \<Rightarrow>
                    dispatch (Reply_ReportControl msg (msg\<lparr>rc_op := OP_STARTED\<rparr>))
                      (s\<lparr>m_dispatcher := dispatcher_add ops (Ticket (m_id s) msg) (m_dispatcher s),
                         m_id := m_id s + 1\<rparr>)
                | OP_REQUEST_STOP \<Rightarrow>
                    dispatch (Reply_ReportControl msg (msg\<lparr>rc_op := OP_STOPPED\<rparr>))
                      (s\<lparr>m_dispatcher := dispatcher_remove ops (Ticket (m_id s) msg) (m_dispatcher s),
                         m_id := m_id s + 1\<rparr>)
                | _ \<Rightarrow> s)
      in report_dispatcher_state ops s1)"

text \<open>
  An instance of the dispatcher parameters for concrete runs: the dispatcher state is the
  list of its tickets. It stands for no code of the repository.
\<close>

fun ticket_is_acoustic :: "Ticket \<Rightarrow> bool" where
  "ticket_is_acoustic (Ticket i msg) = (rc_comm_interface msg = CI_ACOUSTIC)"

definition list_dispatcher :: "Ticket list Dispatcher_ops" where
  "list_dispatcher =
     \<lparr>dispatcher_add = (\<lambda>t d. t # d),
      dispatcher_remove = (\<lambda>t d. removeAll t d),
      dispatcher_clearAcoustic = (\<lambda>d. filter (\<lambda>t. \<not> ticket_is_acoustic t) d),
      dispatcher_isEmpty = (\<lambda>d. d = [])\<rparr>"

definition reporter_scenario :: "Ticket list Reporter_Task" where
  "reporter_scenario =
     \<lparr>act_state = Idle, entity_state = (ESTA_NORMAL, CODE_IDLE),
      activation_time = 0, deactivation_time = 0, outbox = [],
      m_id = 65535, m_dispatcher = [],
      reporter_args = \<lparr>acoustic = False, acoustic_period = 60\<rparr>\<rparr>"

definition start_request :: ReportControl where
  "start_request =
     \<lparr>rc_op = OP_REQUEST_START, rc_comm_interface = CI_ACOUSTIC, rc_period = 60,
      rc_sys_dst = ''broadcast''\<rparr>"

section \<open>Unfolding rules and basic facts\<close>

lemmas framework_defs = dispatch_def setEntityState_def isActive_def isActivating_def
  isDeactivating_def setTop_def overflow_def

lemmas sender_defs = sendPowerChannelControl_def setActiveParameter_def sendPowerDown_def

lemmas lifecycle_defs = requestActivation_def activate_def activationFailed_def
  requestDeactivation_def deactivate_def onRequestActivation_def onActivation_def
  onRequestDeactivation_def onDeactivation_def

lemmas check_defs = checkActivation_def checkDeactivation_def checkPowerDown_def

lemma activation_failures_append [simp]:
  "activation_failures (xs @ ys) = activation_failures xs + activation_failures ys"
  by (simp add: activation_failures_def)

lemma activation_failures_simps [simp]:
  "activation_failures [] = 0"
  "activation_failures (e # es) = (if is_Activation_Failed e then 1 else 0) + activation_failures es"
  by (simp_all add: activation_failures_def)

lemma run_Nil [simp]: "run s [] = s"
  by (simp add: run_def)

lemma run_Cons [simp]: "run s (e # evs) = run (handle s e) evs"
  by (simp add: run_def)

lemma concat_replicate_snoc: "concat (replicate n xs) @ xs = concat (replicate (Suc n) xs)"
  by (induction n) simp_all



section \<open>The liveness monitor\<close>

text \<open>
  C1. A heartbeat sets \<open>m_slave_alive\<close> exactly when the task is activating, the message
  comes from the resolved slave id and its timestamp differs from the clock by at most
  one second; in every other case the task is left as it was.
\<close>

theorem heartbeat_sets_alive_iff:
  "consume_Heartbeat s epoch msg =
     (if act_state s = Activating \<and> hb_source msg = m_slave_id s
         \<and> \<bar>hb_timestamp msg - epoch\<bar> \<le> 1
      then s\<lparr>m_slave_alive := True\<rparr> else s)"
  by (simp add: consume_Heartbeat_def isActivating_def)

text \<open>
  At the clock reading 100: a timestamp of 101 from the slave is accepted, one of 101.01
  is not, nor is a heartbeat from system 7, nor one that arrives while the task is active.
\<close>

theorem heartbeat_sets_alive_iff_witness:
  "consume_Heartbeat (scenario\<lparr>act_state := Activating\<rparr>) 100 \<lparr>hb_source = 42, hb_timestamp = 101\<rparr>
     = scenario\<lparr>act_state := Activating, m_slave_alive := True\<rparr>
   \<and> consume_Heartbeat (scenario\<lparr>act_state := Activating\<rparr>) 100 \<lparr>hb_source = 42, hb_timestamp = 101.01\<rparr>
     = scenario\<lparr>act_state := Activating\<rparr>
   \<and> consume_Heartbeat (scenario\<lparr>act_state := Activating\<rparr>) 100 \<lparr>hb_source = 7, hb_timestamp = 100\<rparr>
     = scenario\<lparr>act_state := Activating\<rparr>
   \<and> consume_Heartbeat (scenario\<lparr>act_state := Active\<rparr>) 100 \<lparr>hb_source = 42, hb_timestamp = 100\<rparr>
     = scenario\<lparr>act_state := Active\<rparr>"
  using heartbeat_sets_alive_iff [of "scenario\<lparr>act_state := Activating\<rparr>" 100 "\<lparr>hb_source = 42, hb_timestamp = 101\<rparr>"]
    heartbeat_sets_alive_iff [of "scenario\<lparr>act_state := Activating\<rparr>" 100 "\<lparr>hb_source = 42, hb_timestamp = 101.01\<rparr>"]
    heartbeat_sets_alive_iff [of "scenario\<lparr>act_state := Activating\<rparr>" 100 "\<lparr>hb_source = 7, hb_timestamp = 100\<rparr>"]
    heartbeat_sets_alive_iff [of "scenario\<lparr>act_state := Active\<rparr>" 100 "\<lparr>hb_source = 42, hb_timestamp = 100\<rparr>"]
  by (simp add: scenario_def)

section \<open>Activation\<close>

text \<open>
  C4. An activation request clears \<open>m_slave_alive\<close> and \<open>m_ccu_pdown\<close>, turns the power
  channel on and arms the timer with the activation timeout: the timer has elapsed at
  \<open>t\<close> exactly when \<open>t\<close> is at least the time of the request plus that timeout. A
  request the framework accepts does this and enters Activating.
\<close>

theorem onRequestActivation_effect:
  "onRequestActivation s now =
     s\<lparr>outbox := outbox s @ [channel_on (pwr_chn (m_args s))],
       m_act_timer := setTop (activation_time s) now,
       m_slave_alive := False, m_ccu_pdown := False\<rparr>
   \<and> (overflow (m_act_timer (onRequestActivation s now)) t \<longleftrightarrow> now + activation_time s \<le> t)
   \<and> (act_state s = Idle \<longrightarrow>
        requestActivation s now = (onRequestActivation s now)\<lparr>act_state := Activating\<rparr>)"
  by (simp add: lifecycle_defs sender_defs framework_defs)

theorem onRequestActivation_effect_witness:
  "act_state (scenario\<lparr>m_slave_alive := True, m_ccu_pdown := True\<rparr>) = Idle
   \<and> requestActivation (scenario\<lparr>m_slave_alive := True, m_ccu_pdown := True\<rparr>) 5
     = scenario\<lparr>act_state := Activating, outbox := [channel_on ''C1''],
         m_act_timer := \<lparr>deadline = 35\<rparr>\<rparr>
   \<and> \<not> overflow (m_act_timer (onRequestActivation (scenario\<lparr>m_slave_alive := True, m_ccu_pdown := True\<rparr>) 5)) 34
   \<and> overflow (m_act_timer (onRequestActivation (scenario\<lparr>m_slave_alive := True, m_ccu_pdown := True\<rparr>) 5)) 35"
  using onRequestActivation_effect [of "scenario\<lparr>m_slave_alive := True, m_ccu_pdown := True\<rparr>" 5 34]
   onRequestActivation_effect [of "scenario\<lparr>m_slave_alive := True, m_ccu_pdown := True\<rparr>" 5 35]
  by (simp add: scenario_def setTop_def overflow_def)

subsection \<open>The activation timeout\<close>















section \<open>Deactivation\<close>











section \<open>Power operations\<close>

text \<open>
  C9. A power operation whose destination is not the resolved slave id leaves the task
  as it was, whatever its operation code: no field changes and nothing is dispatched.
\<close>

theorem power_operation_not_addressed:
  assumes "pop_destination msg \<noteq> m_slave_id s"
  shows "consume_PowerOperation s now msg = s"
  using assms by (simp add: consume_PowerOperation_def)

theorem power_operation_not_addressed_witness:
  "pop_destination \<lparr>pop_destination = 41, pop_op = POP_PWR_DOWN\<rparr> \<noteq> m_slave_id scenario
   \<and> consume_PowerOperation scenario 3 \<lparr>pop_destination = 41, pop_op = POP_PWR_DOWN\<rparr> = scenario"
  using power_operation_not_addressed [of "\<lparr>pop_destination = 41, pop_op = POP_PWR_DOWN\<rparr>" scenario 3]
  by (simp add: scenario_def)

lemma power_up_once:
  assumes "pop_destination msg = m_slave_id s" and "pop_op msg = POP_PWR_UP"
  shows "consume_PowerOperation s now msg =
           s\<lparr>outbox := outbox s @ [channel_on (pwr_chn (m_args s))], m_ccu_pdown := False\<rparr>"
  using assms by (simp add: consume_PowerOperation_def sender_defs framework_defs)

text \<open>
  C8. A power-up directive addressed to the slave clears \<open>m_ccu_pdown\<close> and turns the
  channel on. Consuming the same directive once or any number of times more (at the clock
  readings \<open>t # ts\<close>) gives the same task state; the only trace of the repetition is one
  more ON command for each directive.
\<close>

theorem power_up_idempotent:
  assumes "pop_destination msg = m_slave_id s" and "pop_op msg = POP_PWR_UP"
  shows "foldl (\<lambda>s' now. consume_PowerOperation s' now msg) s (t # ts) =
           s\<lparr>outbox := outbox s @ replicate (Suc (length ts)) (channel_on (pwr_chn (m_args s))),
             m_ccu_pdown := False\<rparr>"
  using assms
proof (induction ts arbitrary: t rule: rev_induct)
  case Nil
  then show ?case by (simp add: power_up_once)
next
  case (snoc u us)
  have "foldl (\<lambda>s' now. consume_PowerOperation s' now msg) s (t # us @ [u]) =
        consume_PowerOperation (foldl (\<lambda>s' now. consume_PowerOperation s' now msg) s (t # us)) u msg"
    by simp
  also have "\<dots> = consume_PowerOperation
      (s\<lparr>outbox := outbox s @ replicate (Suc (length us)) (channel_on (pwr_chn (m_args s))),
         m_ccu_pdown := False\<rparr>) u msg"
    using snoc by simp
  also have "\<dots> = s\<lparr>outbox := outbox s @ replicate (Suc (length (us @ [u]))) (channel_on (pwr_chn (m_args s))),
             m_ccu_pdown := False\<rparr>"
    using snoc.prems by (simp add: power_up_once replicate_append_same)
  finally show ?case .
qed

theorem power_up_idempotent_witness:
  "pop_destination \<lparr>pop_destination = 42, pop_op = POP_PWR_UP\<rparr> = m_slave_id scenario
   \<and> pop_op \<lparr>pop_destination = 42, pop_op = POP_PWR_UP\<rparr> = POP_PWR_UP
   \<and> consume_PowerOperation
       (consume_PowerOperation (scenario\<lparr>m_ccu_pdown := True\<rparr>) 1 \<lparr>pop_destination = 42, pop_op = POP_PWR_UP\<rparr>)
       2 \<lparr>pop_destination = 42, pop_op = POP_PWR_UP\<rparr>
     = scenario\<lparr>outbox := [channel_on ''C1'', channel_on ''C1'']\<rparr>"
  using power_up_idempotent [of "\<lparr>pop_destination = 42, pop_op = POP_PWR_UP\<rparr>" "scenario\<lparr>m_ccu_pdown := True\<rparr>" 1 "[2]"]
  by (simp add: scenario_def)



section \<open>The power-down cascade\<close>

lemma checkPowerDown_elapsed:
  assumes "m_ccu_pdown s" and "overflow (m_act_timer s) now"
  shows "checkPowerDown s now =
           s\<lparr>entity_state := (ESTA_NORMAL, CODE_IDLE),
             outbox := outbox s @ [channel_off (pwr_chn (m_args s)), report_idle]\<rparr>"
  using assms by (simp add: checkPowerDown_def sender_defs framework_defs)

text \<open>
  C6 as stated does not hold. With the flag set and the deadline 10, the check at 10
  turns the channel off and reports IDLE, the flag is still set afterwards, and the check
  at 11 issues the same cutoff again although no other power-down directive has arrived.
\<close>

theorem power_down_cutoff_counterexample:
  "m_ccu_pdown (checkPowerDown (scenario\<lparr>m_ccu_pdown := True, m_act_timer := \<lparr>deadline = 10\<rparr>\<rparr>) 10)
   \<and> outbox (checkPowerDown (scenario\<lparr>m_ccu_pdown := True, m_act_timer := \<lparr>deadline = 10\<rparr>\<rparr>) 10)
       = [channel_off ''C1'', report_idle]
   \<and> outbox (checkPowerDown
        (checkPowerDown (scenario\<lparr>m_ccu_pdown := True, m_act_timer := \<lparr>deadline = 10\<rparr>\<rparr>) 10) 11)
       = [channel_off ''C1'', report_idle, channel_off ''C1'', report_idle]
   \<and> checkPowerDown
        (checkPowerDown (scenario\<lparr>m_ccu_pdown := True, m_act_timer := \<lparr>deadline = 10\<rparr>\<rparr>) 10) 11
       \<noteq> checkPowerDown (scenario\<lparr>m_ccu_pdown := True, m_act_timer := \<lparr>deadline = 10\<rparr>\<rparr>) 10"
  by (simp add: scenario_def checkPowerDown_def sender_defs framework_defs)

text \<open>
  C6, amended. On a power-down check where \<open>m_ccu_pdown\<close> is set and the timer has
  elapsed, the task turns the channel off and reports IDLE. The check changes neither
  the flag nor the timer, so every later check (at the clock readings \<open>ts\<close>) issues the
  same cutoff again, for as long as nothing else clears the flag or arms the timer.
\<close>

theorem power_down_cutoff_repeats:
  assumes "m_ccu_pdown s" and "overflow (m_act_timer s) now" and "\<forall>t\<in>set ts. now \<le> t"
  shows "foldl checkPowerDown s (now # ts) =
           s\<lparr>entity_state := (ESTA_NORMAL, CODE_IDLE),
             outbox := outbox s @ concat (replicate (Suc (length ts))
                         [channel_off (pwr_chn (m_args s)), report_idle])\<rparr>"
  using assms(3)
proof (induction ts rule: rev_induct)
  case Nil
  show ?case using assms(1,2) by (simp add: checkPowerDown_elapsed)
next
  case (snoc u us)
  let ?s' = "s\<lparr>entity_state := (ESTA_NORMAL, CODE_IDLE),
             outbox := outbox s @ concat (replicate (Suc (length us))
                         [channel_off (pwr_chn (m_args s)), report_idle])\<rparr>"
  have ih: "foldl checkPowerDown s (now # us) = ?s'" using snoc by simp
  have "now \<le> u" using snoc.prems by simp
  then have o: "overflow (m_act_timer ?s') u" using assms(2) by (simp add: overflow_def)
  have p: "m_ccu_pdown ?s'" using assms(1) by simp
  have "foldl checkPowerDown s (now # us @ [u]) = checkPowerDown ?s' u"
    using ih by simp
  also have "\<dots> = ?s'\<lparr>entity_state := (ESTA_NORMAL, CODE_IDLE),
             outbox := outbox ?s' @ [channel_off (pwr_chn (m_args ?s')), report_idle]\<rparr>"
    by (rule checkPowerDown_elapsed [OF p o])
  also have "\<dots> = s\<lparr>entity_state := (ESTA_NORMAL, CODE_IDLE),
             outbox := outbox s @ concat (replicate (Suc (length (us @ [u])))
                         [channel_off (pwr_chn (m_args s)), report_idle])\<rparr>"
    using concat_replicate_snoc [of "Suc (length us)" "[channel_off (pwr_chn (m_args s)), report_idle]"]
    by simp
  finally show ?case .
qed

theorem power_down_cutoff_repeats_witness:
  "m_ccu_pdown (scenario\<lparr>m_ccu_pdown := True, m_act_timer := \<lparr>deadline = 10\<rparr>\<rparr>)
   \<and> overflow (m_act_timer (scenario\<lparr>m_ccu_pdown := True, m_act_timer := \<lparr>deadline = 10\<rparr>\<rparr>)) 10
   \<and> (10::real) \<le> 11 \<and> (10::real) \<le> 12
   \<and> checkPowerDown (checkPowerDown (checkPowerDown
        (scenario\<lparr>m_ccu_pdown := True, m_act_timer := \<lparr>deadline = 10\<rparr>\<rparr>) 10) 11) 12
     = scenario\<lparr>m_ccu_pdown := True, m_act_timer := \<lparr>deadline = 10\<rparr>,
         outbox := [channel_off ''C1'', report_idle, channel_off ''C1'', report_idle,
                    channel_off ''C1'', report_idle]\<rparr>"
  using power_down_cutoff_repeats
    [of "scenario\<lparr>m_ccu_pdown := True, m_act_timer := \<lparr>deadline = 10\<rparr>\<rparr>" 10 "[11, 12]"]
  by (simp add: scenario_def checkPowerDown_def sender_defs framework_defs)

section \<open>The main loop\<close>

text \<open>
  C5 as stated does not hold: the status report is not made after the three checks. For
  an active task with a power-down cutoff due, the pass of the source reports ACTIVE
  first and ends with the status IDLE set by the power-down check; in the order of the
  claim the last report would be ACTIVE.
\<close>

theorem main_loop_order_counterexample:
  "entity_state (onMain_body
      (scenario\<lparr>act_state := Active, m_ccu_pdown := True, m_act_timer := \<lparr>deadline = 10\<rparr>\<rparr>) 10)
     = (ESTA_NORMAL, CODE_IDLE)
   \<and> entity_state (spec_onMain_body
      (scenario\<lparr>act_state := Active, m_ccu_pdown := True, m_act_timer := \<lparr>deadline = 10\<rparr>\<rparr>) 10)
     = (ESTA_NORMAL, CODE_ACTIVE)
   \<and> outbox (onMain_body
      (scenario\<lparr>act_state := Active, m_ccu_pdown := True, m_act_timer := \<lparr>deadline = 10\<rparr>\<rparr>) 10)
     = [report_active, channel_off ''C1'', report_idle]
   \<and> outbox (spec_onMain_body
      (scenario\<lparr>act_state := Active, m_ccu_pdown := True, m_act_timer := \<lparr>deadline = 10\<rparr>\<rparr>) 10)
     = [channel_off ''C1'', report_idle, report_active]"
  by (simp add: scenario_def onMain_body_def spec_onMain_body_def check_defs sender_defs
      framework_defs)

text \<open>
  C5, amended. On every wake of the main loop the task first makes one status report,
  ACTIVE if it is operationally active at that moment and IDLE otherwise, and then makes
  the three checks in the order activation, deactivation, power-down. The effects of a
  pass are the status report followed by the effects of the three checks in that order.
\<close>

theorem main_loop_order:
  "outbox (onMain_body s now) =
     outbox s
     @ [if act_state s = Active then report_active else report_idle]
     @ (if act_state s = Activating \<and> overflow (m_act_timer s) now
        then [Activation_Failed ''failed to contact device'', channel_off (pwr_chn (m_args s))]
        else if act_state s = Activating \<and> m_slave_alive s
        then [report_active, set_active_parameter (slave_entity (m_args s)) ''true'']
        else [])
     @ (if act_state s = Deactivating \<and> overflow (m_act_timer s) now
        then [channel_off (pwr_chn (m_args s)), report_idle] else [])
     @ (if m_ccu_pdown s \<and> overflow (m_act_timer s) now
        then [channel_off (pwr_chn (m_args s)), report_idle] else [])
   \<and> onMain_body s now =
       checkPowerDown (checkDeactivation (checkActivation
         (setEntityState ESTA_NORMAL (if act_state s = Active then CODE_ACTIVE else CODE_IDLE) s)
         now) now) now"
  by (cases "act_state s")
     (simp_all add: onMain_body_def Let_def check_defs lifecycle_defs sender_defs framework_defs)

theorem main_loop_order_witness:
  "outbox (onMain_body (scenario\<lparr>act_state := Activating, m_act_timer := \<lparr>deadline = 30\<rparr>\<rparr>) 30)
     = [report_idle, Activation_Failed ''failed to contact device'', channel_off ''C1'']
   \<and> outbox (onMain_body (scenario\<lparr>act_state := Deactivating, m_act_timer := \<lparr>deadline = 20\<rparr>\<rparr>) 20)
     = [report_idle, channel_off ''C1'', report_idle]
   \<and> outbox (onMain_body (scenario\<lparr>act_state := Active\<rparr>) 7) = [report_active]"
  using main_loop_order [of "scenario\<lparr>act_state := Activating, m_act_timer := \<lparr>deadline = 30\<rparr>\<rparr>" 30]
    main_loop_order [of "scenario\<lparr>act_state := Deactivating, m_act_timer := \<lparr>deadline = 20\<rparr>\<rparr>" 20]
    main_loop_order [of "scenario\<lparr>act_state := Active\<rparr>" 7]
  by (simp add: scenario_def onMain_body_def Let_def check_defs lifecycle_defs sender_defs
      framework_defs)

section \<open>The reporter\<close>

text \<open>
  C10. At the end of \<open>consume\<close> for a report control message and at the end of
  \<open>onUpdateParameters\<close>, the entity state is IDLE if the dispatcher is empty and ACTIVE
  if it is not, for the dispatcher as the handler leaves it and whatever the dispatcher
  operations do.
\<close>

theorem reporter_entity_state:
  "entity_state (consume_ReportControl ops s msg) =
     (ESTA_NORMAL, if dispatcher_isEmpty ops (m_dispatcher (consume_ReportControl ops s msg))
                   then CODE_IDLE else CODE_ACTIVE)
   \<and> entity_state (reporter_onUpdateParameters ops ca cp s') =
     (ESTA_NORMAL, if dispatcher_isEmpty ops (m_dispatcher (reporter_onUpdateParameters ops ca cp s'))
                   then CODE_IDLE else CODE_ACTIVE)"
  by (simp add: consume_ReportControl_def reporter_onUpdateParameters_def
      report_dispatcher_state_def Let_def framework_defs split: rc_op.split)

text \<open>
  With the list dispatcher: a start request makes the task ACTIVE with one ticket (and
  the sequence id wraps from 65535 to 0); a parameter update that switches the acoustic
  reports off clears the ticket and makes it IDLE.
\<close>

theorem reporter_entity_state_witness:
  "entity_state (consume_ReportControl list_dispatcher reporter_scenario start_request)
     = (ESTA_NORMAL, CODE_ACTIVE)
   \<and> m_dispatcher (consume_ReportControl list_dispatcher reporter_scenario start_request)
     = [Ticket 65535 start_request]
   \<and> m_id (consume_ReportControl list_dispatcher reporter_scenario start_request) = 0
   \<and> entity_state (reporter_onUpdateParameters list_dispatcher True False
        (consume_ReportControl list_dispatcher reporter_scenario start_request))
     = (ESTA_NORMAL, CODE_IDLE)
   \<and> m_dispatcher (reporter_onUpdateParameters list_dispatcher True False
        (consume_ReportControl list_dispatcher reporter_scenario start_request)) = []"
  using reporter_entity_state [of list_dispatcher reporter_scenario start_request True False
          "consume_ReportControl list_dispatcher reporter_scenario start_request"]
  by (simp add: consume_ReportControl_def reporter_onUpdateParameters_def
      report_dispatcher_state_def Let_def framework_defs list_dispatcher_def
      reporter_scenario_def start_request_def)

end
